theory Spec2Isabelle
  imports Main "HOL-Library.Sublist" "HOL-Library.Word"
begin

section \<open>Strings\<close>

text \<open>
  A Python \<open>str\<close> is a sequence of Unicode code points and \<open>len\<close> counts code points,
  so a string is modelled as the list of its code points. \<open>lit\<close> turns an ASCII literal
  into such a list.
\<close>

type_synonym str = "nat list"

definition lit :: "string \<Rightarrow> str" where
  "lit s = map of_char s"

section \<open>The Todo model (src/models/todo.py)\<close>

text \<open>
  A \<open>datetime\<close> is an instant, counted in microseconds from the epoch. The annotation
  \<open>Literal["pending", "completed"]\<close> of the field \<open>status\<close> is not checked when the
  program runs, so the field holds any string. The field \<open>id\<close> is named \<open>id'\<close> here.
\<close>

type_synonym datetime = int

datatype exc = ValueError str

record Todo =
  id' :: str
  "text" :: str
  status :: str
  created_at :: datetime
  completed_at :: "datetime option"
  updated_at :: datetime

text \<open>
  \<open>__post_init__\<close>: the two checks of the text, in the order of the source. Nothing else
  is looked at.
\<close>

definition post_init :: "Todo \<Rightarrow> exc + unit" where
  "post_init self =
     (if Todo.text self = [] \<or> length (Todo.text self) = 0
      then Inl (ValueError (lit ''Todo text required''))
      else if length (Todo.text self) > 200
      then Inl (ValueError (lit ''Todo text too long (max 200 characters)''))
      else Inr ())"

text \<open>
  The constructor the dataclass generates: it stores the six fields and then runs
  \<open>__post_init__\<close>; when that raises, no object reaches the caller.
\<close>

definition Todo_init ::
  "str \<Rightarrow> str \<Rightarrow> str \<Rightarrow> datetime \<Rightarrow> datetime option \<Rightarrow> datetime \<Rightarrow> exc + Todo" where
  "Todo_init i t s c d upd =
     (let self = \<lparr>id' = i, text = t, status = s, created_at = c, completed_at = d,
                  updated_at = upd\<rparr>
      in case post_init self of Inl e \<Rightarrow> Inl e | Inr _ \<Rightarrow> Inr self)"

text \<open>
  \<open>Todo.create\<close> reads the clock once and draws one UUID. Both values come from the
  environment: \<open>now\<close> is the result of \<open>datetime.now(UTC)\<close> and \<open>uuid4\<close> the result of
  \<open>str(uuid.uuid4())\<close> for this call.
\<close>

definition create :: "datetime \<Rightarrow> str \<Rightarrow> str \<Rightarrow> exc + Todo" where
  "create now uuid4 t = Todo_init uuid4 t (lit ''pending'') now None now"

text \<open>
  The class is declared with \<open>@dataclass\<close> and is not frozen, and \<open>__post_init__\<close> runs in
  the constructor only: the assignment \<open>self.text = v\<close> stores \<open>v\<close> and checks nothing.
\<close>

definition setattr_text :: "Todo \<Rightarrow> str \<Rightarrow> Todo" where
  "setattr_text self v = self\<lparr>text := v\<rparr>"

section \<open>The agent's tools (backend/src/agent/todo_agent.py)\<close>

text \<open>
  \<open>AgentContext\<close> bundles the database session and the id of the authenticated user.
  Both are opaque to the wrappers, hence type parameters.
\<close>

record ('s, 'u) AgentContext =
  session :: 's
  user_id :: 'u

text \<open>
  The items of a handler's result. The wrappers read their field \<open>text\<close> and nothing
  else; it is named \<open>text'\<close> here.
\<close>

datatype TextContent = TextContent (text': str)

text \<open>
  The five handlers \<open>add_task\<close>, \<open>list_tasks\<close>, \<open>complete_task\<close>, \<open>update_task\<close> and
  \<open>delete_task\<close> are imported from \<open>..mcp.tools\<close>. A value of type \<open>call\<close> is one
  invocation of a handler with its keyword arguments, in the order the wrappers write
  them.
\<close>

datatype ('s, 'u) call =
    add_task 's 'u str str
  | list_tasks 's 'u str
  | complete_task 's 'u str
  | update_task 's 'u str str "str option"
  | delete_task 's 'u str

text \<open>
  The body of a wrapper is a short coroutine: it prints, awaits one handler and returns a
  string. \<open>Await c k\<close> awaits the call \<open>c\<close> and goes on with \<open>k result\<close>. Each of the five
  is decorated with \<open>@function_tool\<close>, so the name the source defines, and the entry of
  \<open>TODO_TOOLS\<close>, is the tool the decorator builds from the coroutine.
\<close>

datatype ('s, 'u) coroutine =
    Return str
  | Print str "('s, 'u) coroutine"
  | Await "('s, 'u) call" "TextContent list \<Rightarrow> ('s, 'u) coroutine"

datatype ('s, 'u) FunctionTool = function_tool "('s, 'u) coroutine"

definition tool_add_task :: "('s, 'u) AgentContext \<Rightarrow> str \<Rightarrow> str \<Rightarrow> ('s, 'u) FunctionTool" where
  "tool_add_task ctx title description =
     function_tool
       (Await (add_task (session ctx) (user_id ctx) title description)
          (\<lambda>result. Return (if result \<noteq> [] then text' (result ! 0)
                             else lit ''Failed to add task'')))"

definition tool_list_tasks :: "('s, 'u) AgentContext \<Rightarrow> str \<Rightarrow> ('s, 'u) FunctionTool" where
  "tool_list_tasks ctx filter' =
     function_tool
       (Await (list_tasks (session ctx) (user_id ctx) filter')
          (\<lambda>result.
             let response = (if result \<noteq> [] then text' (result ! 0)
                             else lit ''Failed to list tasks'')
             in Print (lit ''[DEBUG] tool_list_tasks response: '' @ response)
                  (Return response)))"

definition tool_complete_task :: "('s, 'u) AgentContext \<Rightarrow> str \<Rightarrow> ('s, 'u) FunctionTool" where
  "tool_complete_task ctx task_id =
     function_tool
       (Await (complete_task (session ctx) (user_id ctx) task_id)
          (\<lambda>result. Return (if result \<noteq> [] then text' (result ! 0)
                             else lit ''Failed to complete task'')))"

definition tool_update_task ::
  "('s, 'u) AgentContext \<Rightarrow> str \<Rightarrow> str \<Rightarrow> str option \<Rightarrow> ('s, 'u) FunctionTool" where
  "tool_update_task ctx task_id title description =
     function_tool
       (Await (update_task (session ctx) (user_id ctx) task_id title description)
          (\<lambda>result. Return (if result \<noteq> [] then text' (result ! 0)
                             else lit ''Failed to update task'')))"

definition tool_delete_task :: "('s, 'u) AgentContext \<Rightarrow> str \<Rightarrow> ('s, 'u) FunctionTool" where
  "tool_delete_task ctx task_id =
     function_tool
       (Print (lit ''[DEBUG] tool_delete_task called with task_id: '' @ task_id)
          (Await (delete_task (session ctx) (user_id ctx) task_id)
             (\<lambda>result.
                let response = (if result \<noteq> [] then text' (result ! 0)
                                else lit ''Failed to delete task'')
                in Print (lit ''[DEBUG] tool_delete_task response: '' @ response)
                     (Return response))))"

text \<open>
  Running a coroutine against the handlers. A handler \<open>h\<close> takes the call and the state of
  the world (the database behind the session) and gives back the new state with either
  its result or the exception it raised. No coroutine catches anything, so an exception
  ends its run. The run is reported as the events in the order they happened, the
  outcome and the final state.
\<close>

datatype ('s, 'u) event = Called "('s, 'u) call" | Printed str

datatype 'e outcome = Returned str | Raised 'e

primrec exec ::
  "(('s, 'u) call \<Rightarrow> 'w \<Rightarrow> ('e + TextContent list) \<times> 'w) \<Rightarrow> ('s, 'u) coroutine \<Rightarrow> 'w
     \<Rightarrow> ('s, 'u) event list \<times> 'e outcome \<times> 'w" where
  "exec h (Return v) w = ([], Returned v, w)"
| "exec h (Print s k) w =
     (case exec h k w of (evs, out, w') \<Rightarrow> (Printed s # evs, out, w'))"
| "exec h (Await c k) w =
     (case h c w of
        (Inl e, w') \<Rightarrow> ([Called c], Raised e, w')
      | (Inr result, w') \<Rightarrow>
          (case exec h (k result) w' of (evs, out, w'') \<Rightarrow> (Called c # evs, out, w'')))"

text \<open>
  Invoking a tool. \<open>function_tool\<close> belongs to the agents library, which is not among the
  sources. The tool it builds runs the coroutine on the arguments it is given; when the
  coroutine raises, the tool does not raise but returns the message that the library's
  error function makes of the exception. That function is a parameter here.
\<close>

fun on_invoke_tool ::
  "('e \<Rightarrow> str) \<Rightarrow> (('s, 'u) call \<Rightarrow> 'w \<Rightarrow> ('e + TextContent list) \<times> 'w)
     \<Rightarrow> ('s, 'u) FunctionTool \<Rightarrow> 'w \<Rightarrow> ('s, 'u) event list \<times> str \<times> 'w" where
  "on_invoke_tool failure_error_function h (function_tool body) w =
     (case exec h body w of
        (evs, Returned v, w') \<Rightarrow> (evs, v, w')
      | (evs, Raised e, w') \<Rightarrow> (evs, failure_error_function e, w'))"

text \<open>The handler calls of a run, in order.\<close>

fun store_calls :: "('s, 'u) event list \<Rightarrow> ('s, 'u) call list" where
  "store_calls [] = []"
| "store_calls (Called c # evs) = c # store_calls evs"
| "store_calls (Printed s # evs) = store_calls evs"

text \<open>
  For running the tools on concrete inputs: a handler that answers every call with the
  same result and counts the calls it has received, and an error function that returns
  the text of the exception.
\<close>

definition counting_handler ::
  "TextContent list \<Rightarrow> ('s, 'u) call \<Rightarrow> nat \<Rightarrow> (str + TextContent list) \<times> nat" where
  "counting_handler result c n = (Inr result, Suc n)"

definition error_text :: "str \<Rightarrow> str" where
  "error_text e = e"

text \<open>
  \<open>get_system_prompt\<close>: the f-string of the source, one item per line of the source, with
  the two formatted fields in their places. \<open>strftime\<close> is the library's formatting of the
  clock reading \<open>now\<close>; the doubled braces of the f-string stand for single ones, and the
  arrow of the example flow is the code point 8594.
\<close>

definition get_system_prompt :: "('t \<Rightarrow> str \<Rightarrow> str) \<Rightarrow> 't \<Rightarrow> str" where
  \<open>get_system_prompt strftime now =
     (let date_str = strftime now (lit ''%A, %B %d, %Y'');
          time_str = strftime now (lit ''%I:%M %p'')
      in concat [
        lit ''You are a friendly and helpful todo list assistant. You help users manage their tasks through natural conversation.\<newline>'',
        lit ''\<newline>'',
        lit ''LANGUAGE: You MUST respond in the SAME LANGUAGE as the user. If user writes in Urdu, respond in Urdu. If user writes in English, respond in English.\<newline>'',
        lit ''\<newline>'',
        lit ''IMPORTANT - Current Date/Time Information:\<newline>'',
        lit ''- Today's date is: '', date_str, lit ''\<newline>'',
        lit ''- Current time is: '', time_str, lit ''\<newline>'',
        lit ''- Use this information when users mention relative dates like "tomorrow", "next week", "coming Saturday", "kal", "aglay haftay", etc.\<newline>'',
        lit ''\<newline>'',
        lit ''Your capabilities:\<newline>'',
        lit ''- Add new tasks (when user mentions adding, creating, remembering something)\<newline>'',
        lit ''- List tasks (when user asks to see, show, or list tasks)\<newline>'',
        lit ''- Complete tasks (when user says done, finished, completed, "ho gaya", "mukammal")\<newline>'',
        lit ''- Update tasks (when user wants to change, rename, or modify)\<newline>'',
        lit ''- Delete tasks (when user says delete, remove, cancel, "hatao", "delete karo", "mita do")\<newline>'',
        lit ''\<newline>'',
        lit ''CRITICAL WORKFLOW for Delete/Update/Complete operations:\<newline>'',
        lit ''1. FIRST: Call list_tasks to get tasks. The response contains "full_id" field - this is the UUID you MUST use.\<newline>'',
        lit ''2. THEN: Match the user's request to the task(s) by title/description\<newline>'',
        lit ''3. ASK FOR CONFIRMATION ONCE (only if you haven't already in this conversation)\<newline>'',
        lit ''4. WHEN USER CONFIRMS (says "yes", "haan", "g", "ji", "delete karo", "karo", "do it", "go ahead", etc.):\<newline>'',
        lit ''   - IMMEDIATELY call the tool (delete_task, complete_task, update_task) with the "full_id" value\<newline>'',
        lit ''   - DO NOT ask for confirmation again\<newline>'',
        lit ''   - DO NOT call list_tasks again after confirmation\<newline>'',
        lit ''5. If user says "no", "nahi", "cancel", "mat karo" - cancel the operation\<newline>'',
        lit ''\<newline>'',
        lit ''VERY IMPORTANT - Using Task IDs:\<newline>'',
        lit ''- The list_tasks response has "id" (short) and "full_id" (complete UUID)\<newline>'',
        lit ''- You MUST use the "full_id" value when calling delete_task, complete_task, or update_task\<newline>'',
        lit ''- Example: If list_tasks returns {"id": "abc12345", "full_id": "abc12345-6789-...", "title": "Buy milk"}\<newline>'',
        lit ''  Then call delete_task with task_id="abc12345-6789-..." (the full_id value)\<newline>'',
        lit ''\<newline>'',
        lit ''CONFIRMATION RECOGNITION - These ALL mean YES:\<newline>'',
        lit ''- English: "yes", "yeah", "yep", "sure", "ok", "okay", "do it", "go ahead", "confirm", "delete it"\<newline>'',
        lit ''- Urdu: "haan", "han", "ji", "g", "ji haan", "kar do", "karo", "delete karo", "hata do", "theek hai"\<newline>'',
        lit ''\<newline>'',
        lit ''Guidelines:\<newline>'',
        lit ''- ONLY ask for confirmation ONCE, then act on the user's response\<newline>'',
        lit ''- When listing tasks, format them clearly and numbered (1, 2, 3...) - don't show UUIDs to users\<newline>'',
        lit ''- Never expose technical error details or UUIDs to users\<newline>'',
        lit ''- Be helpful and engaging in your responses\<newline>'',
        lit ''- Acknowledge user accomplishments and provide encouragement\<newline>'',
        lit ''\<newline>'',
        lit ''Example flow:\<newline>'',
        lit ''1. User: "delete my task"\<newline>'',
        lit ''2. You: Call list_tasks '', [8594], lit '' find task with full_id="abc-123-..."\<newline>'',
        lit ''3. You: "I found 'Buy groceries'. Delete it?"\<newline>'',
        lit ''4. User: "yes" or "haan" or "g"\<newline>'',
        lit ''5. You: IMMEDIATELY call delete_task(task_id="abc-123-...") - NO more questions!\<newline>'',
        lit ''6. You: "Done! Task deleted." ''])\<close>

text \<open>
  \<open>_parse_tool_response\<close>. \<open>json.loads\<close> belongs to the standard library and is a
  parameter here. It returns the decoded Python value, or it raises: \<open>JSONDecodeError\<close> on
  a text that is not a JSON document, a \<open>ValueError\<close> that is no \<open>JSONDecodeError\<close> on an
  integer of more digits than the interpreter converts, and \<open>RecursionError\<close> on a
  document nested too deep. The \<open>except\<close> clause of the source names \<open>JSONDecodeError\<close>
  only, so the other two pass through it. A float is kept as its 64 bits, a dict as its
  items in order.
\<close>

datatype py_value =
    PyNone
  | PyBool bool
  | PyInt int
  | PyFloat "64 word"
  | PyStr str
  | PyList "py_value list"
  | PyDict "(str \<times> py_value) list"

datatype json_exc = JSONDecodeError | IntegerValueError | RecursionError

definition parse_tool_response ::
  "(str \<Rightarrow> json_exc + py_value) \<Rightarrow> str \<Rightarrow> json_exc + py_value" where
  "parse_tool_response json_loads response_text =
     (case json_loads response_text of
        Inr v \<Rightarrow> Inr v
      | Inl JSONDecodeError \<Rightarrow>
          Inr (PyDict [(lit ''success'', PyBool False),
                       (lit ''error'', PyDict [(lit ''message'', PyStr response_text)])])
      | Inl e \<Rightarrow> Inl e)"

fun is_dict :: "py_value \<Rightarrow> bool" where
  "is_dict (PyDict items) = True"
| "is_dict v = False"

text \<open>
  What \<open>json.loads\<close> does on the four documents \<open>null\<close>, \<open>true\<close>, \<open>false\<close> and \<open>{}\<close>,
  and on a text that does not start a JSON value, for running \<open>_parse_tool_response\<close> on
  one of them. On no other document is this decoder meant to stand for the library's.
\<close>

definition loads_literal :: "str \<Rightarrow> json_exc + py_value" where
  "loads_literal doc =
     (if doc = lit ''null'' then Inr PyNone
      else if doc = lit ''true'' then Inr (PyBool True)
      else if doc = lit ''false'' then Inr (PyBool False)
      else if doc = lit ''{}'' then Inr (PyDict [])
      else Inl JSONDecodeError)"

section \<open>Provider configuration (phase2-fullstack-web/backend/src/agent/config.py)\<close>

text \<open>
  \<open>os.environ\<close> is a map from names to values. \<open>os.environ.get(k)\<close> is tested for truth in
  the source: a missing variable and an empty value both count as false. \<open>str.lower\<close> is
  the library's and a parameter.
\<close>

type_synonym environ = "str \<rightharpoonup> str"

definition truthy :: "str option \<Rightarrow> bool" where
  "truthy v = (case v of None \<Rightarrow> False | Some x \<Rightarrow> x \<noteq> [])"

datatype config_exc = AgentConfigError str

record AsyncOpenAI =
  api_key :: str
  base_url :: "str option"

definition GEMINI_BASE_URL :: str where
  "GEMINI_BASE_URL = lit ''https://generativelanguage.googleapis.com/v1beta/openai/''"

definition detect_provider :: "(str \<Rightarrow> str) \<Rightarrow> environ \<Rightarrow> str" where
  "detect_provider lower env =
     (let provider = lower (case env (lit ''AI_PROVIDER'') of None \<Rightarrow> [] | Some v \<Rightarrow> v)
      in if provider \<noteq> [] then provider
         else if truthy (env (lit ''GEMINI_API_KEY'')) then lit ''gemini''
         else if truthy (env (lit ''OPENAI_API_KEY'')) then lit ''openai''
         else lit ''gemini'')"

definition get_api_client :: "(str \<Rightarrow> str) \<Rightarrow> environ \<Rightarrow> config_exc + AsyncOpenAI" where
  "get_api_client lower env =
     (let provider = detect_provider lower env
      in if provider = lit ''gemini''
         then (case env (lit ''GEMINI_API_KEY'') of
                 None \<Rightarrow>
                   Inl (AgentConfigError (lit ''GEMINI_API_KEY environment variable is not set.''))
               | Some key \<Rightarrow>
                   if key = []
                   then Inl (AgentConfigError
                               (lit ''GEMINI_API_KEY environment variable is not set.''))
                   else Inr \<lparr>api_key = key, base_url = Some GEMINI_BASE_URL\<rparr>)
         else (case env (lit ''OPENAI_API_KEY'') of
                 None \<Rightarrow>
                   Inl (AgentConfigError (lit ''OPENAI_API_KEY environment variable is not set.''))
               | Some key \<Rightarrow>
                   if key = []
                   then Inl (AgentConfigError
                               (lit ''OPENAI_API_KEY environment variable is not set.''))
                   else Inr \<lparr>api_key = key, base_url = None\<rparr>))"

text \<open>\<open>str.lower\<close> on ASCII text, for running the two functions on concrete environments.\<close>

definition ascii_lower :: "str \<Rightarrow> str" where
  "ascii_lower s = map (\<lambda>c. if 65 \<le> c \<and> c \<le> 90 then c + 32 else c) s"

section \<open>The task store\<close>

text \<open>
  Modelled from the spec: the handler \<open>complete_task\<close> of \<open>mcp/tools\<close>, which the wrapper
  \<open>tool_complete_task\<close> calls and which is not among the sources. The specification
  gives a task an identifier, an owner, a title, a description, a completion flag and
  three timestamps; \<open>complete(owner, taskId)\<close> toggles the completion flag and returns the
  task, only the owner may reference a task, and a task the store does not have is
  reported as not found.
\<close>

record 'u Task =
  ident :: str
  owner :: 'u
  task_title :: str
  task_description :: str
  completed :: bool
  created :: datetime
  updated :: datetime
  completed_time :: "datetime option"

datatype store_error = NotFoundError

definition complete ::
  "'u \<Rightarrow> str \<Rightarrow> (str \<rightharpoonup> 'u Task) \<Rightarrow> (store_error + 'u Task) \<times> (str \<rightharpoonup> 'u Task)" where
  "complete own taskId store =
     (case store taskId of
        None \<Rightarrow> (Inl NotFoundError, store)
      | Some t \<Rightarrow>
          if owner t \<noteq> own then (Inl NotFoundError, store)
          else (let t' = t\<lparr>completed := \<not> completed t\<rparr>
                in (Inr t', store(taskId \<mapsto> t'))))"

text \<open>
  Modelled from the spec: \<open>add\<close> and \<open>list\<close> of the task store (section 6), whose code is
  not among the sources. \<open>add(owner, title, description)\<close> builds the task, with
  \<open>Todo.create\<close> above, and keeps it with its owner and description; a title that
  \<open>Todo.create\<close> refuses and a description of more than 500 characters are validation
  errors, which leave the store as it was (sections 3 and 7). The bound on the title is
  thus the one the code enforces, 200 characters, where section 3 says 100.
  \<open>list(owner, filter)\<close> returns the owner's tasks in the order they were added: all of
  them, the pending ones or the completed ones.
\<close>

record 'u stored_task =
  task_owner :: 'u
  stored_description :: str
  todo :: Todo

datatype add_error = ValidationError


definition add ::
  "datetime \<Rightarrow> str \<Rightarrow> 'u \<Rightarrow> str \<Rightarrow> str \<Rightarrow> 'u stored_task list
     \<Rightarrow> (add_error + Todo) \<times> 'u stored_task list" where
  "add now uuid4 own ttl descr store =
     (if 500 < length descr then (Inl ValidationError, store)
      else case create now uuid4 ttl of
             Inl e \<Rightarrow> (Inl ValidationError, store)
           | Inr td \<Rightarrow>
               (Inr td,
                store @ [\<lparr>task_owner = own, stored_description = descr, todo = td\<rparr>]))"



section \<open>Properties\<close>

text \<open>
  What it means for a tool \<open>t\<close> to pass a call through: invoked with any error function,
  against any handlers in any state, it makes the one handler call \<open>c\<close> and no other,
  leaves the state as that call left it, and, when the handler returns a result, returns
  the text of the first item of that result, or \<open>fallback\<close> when the result has no item.
  Of a handler that raises, the calls and the state are stated and the returned text is
  not.
\<close>

definition passes_through ::
  "('e \<Rightarrow> str) \<Rightarrow> (('s, 'u) call \<Rightarrow> 'w \<Rightarrow> ('e + TextContent list) \<times> 'w) \<Rightarrow> 'w
     \<Rightarrow> ('s, 'u) FunctionTool \<Rightarrow> ('s, 'u) call \<Rightarrow> str \<Rightarrow> bool" where
  "passes_through fef h w t c fallback =
     (store_calls (fst (on_invoke_tool fef h t w)) = [c]
      \<and> snd (snd (on_invoke_tool fef h t w)) = snd (h c w)
      \<and> (case fst (h c w) of
            Inl e \<Rightarrow> True
          | Inr result \<Rightarrow>
              fst (snd (on_invoke_tool fef h t w)) =
                (if result \<noteq> [] then text' (result ! 0) else fallback)))"

subsection \<open>Auxiliary facts\<close>

lemma post_init_cases:
  "post_init self =
     (if Todo.text self = [] then Inl (ValueError (lit ''Todo text required''))
      else if 200 < length (Todo.text self)
      then Inl (ValueError (lit ''Todo text too long (max 200 characters)''))
      else Inr ())"
  by (simp add: post_init_def)

lemma Todo_init_ok:
  "t \<noteq> [] \<Longrightarrow> length t \<le> 200 \<Longrightarrow>
   Todo_init i t s c d upd =
     Inr \<lparr>id' = i, text = t, status = s, created_at = c, completed_at = d, updated_at = upd\<rparr>"
  by (simp add: Todo_init_def post_init_cases Let_def)

lemma Todo_init_empty:
  "Todo_init i [] s c d upd = Inl (ValueError (lit ''Todo text required''))"
  by (simp add: Todo_init_def post_init_cases Let_def)

lemma Todo_init_long:
  "200 < length t \<Longrightarrow>
   Todo_init i t s c d upd = Inl (ValueError (lit ''Todo text too long (max 200 characters)''))"
  by (auto simp add: Todo_init_def post_init_cases Let_def)

lemma Todo_init_Inr:
  "Todo_init i t s c d upd = Inr td \<Longrightarrow>
   td = \<lparr>id' = i, text = t, status = s, created_at = c, completed_at = d, updated_at = upd\<rparr>
   \<and> 1 \<le> length t \<and> length t \<le> 200"
  by (cases t) (auto simp add: Todo_init_def post_init_cases Let_def split: if_splits)

lemma exec_Await_Return:
  "exec h (Await c (\<lambda>result. Return (f result))) w =
     (case h c w of
        (Inl e, w') \<Rightarrow> ([Called c], Raised e, w')
      | (Inr result, w') \<Rightarrow> ([Called c], Returned (f result), w'))"
  by (simp split: prod.splits sum.splits)

lemma exec_Await_Print_Return:
  "exec h (Await c (\<lambda>result. Print (p result) (Return (f result)))) w =
     (case h c w of
        (Inl e, w') \<Rightarrow> ([Called c], Raised e, w')
      | (Inr result, w') \<Rightarrow> ([Called c, Printed (p result)], Returned (f result), w'))"
  by (simp split: prod.splits sum.splits)

lemma passes_add:
  "passes_through fef h w (tool_add_task ctx title description)
     (add_task (session ctx) (user_id ctx) title description) (lit ''Failed to add task'')"
  unfolding passes_through_def tool_add_task_def on_invoke_tool.simps exec_Await_Return
  by (simp split: prod.splits sum.splits)

lemma passes_list:
  "passes_through fef h w (tool_list_tasks ctx filter')
     (list_tasks (session ctx) (user_id ctx) filter') (lit ''Failed to list tasks'')"
  unfolding passes_through_def tool_list_tasks_def Let_def on_invoke_tool.simps
    exec_Await_Print_Return
  by (simp split: prod.splits sum.splits)

lemma passes_complete:
  "passes_through fef h w (tool_complete_task ctx task_id)
     (complete_task (session ctx) (user_id ctx) task_id) (lit ''Failed to complete task'')"
  unfolding passes_through_def tool_complete_task_def on_invoke_tool.simps exec_Await_Return
  by (simp split: prod.splits sum.splits)

lemma passes_update:
  "passes_through fef h w (tool_update_task ctx task_id title description)
     (update_task (session ctx) (user_id ctx) task_id title description)
     (lit ''Failed to update task'')"
  unfolding passes_through_def tool_update_task_def on_invoke_tool.simps exec_Await_Return
  by (simp split: prod.splits sum.splits)

lemma passes_delete:
  "passes_through fef h w (tool_delete_task ctx task_id)
     (delete_task (session ctx) (user_id ctx) task_id) (lit ''Failed to delete task'')"
  unfolding passes_through_def tool_delete_task_def Let_def on_invoke_tool.simps exec.simps(2)
    exec_Await_Print_Return
  by (simp split: prod.splits sum.splits)

lemma sublist_concat_nth:
  "i < length xss \<Longrightarrow> sublist xs (xss ! i) \<Longrightarrow> sublist xs (concat xss)"
proof (induction xss arbitrary: i)
  case Nil
  then show ?case by simp
next
  case (Cons a xss)
  show ?case
  proof (cases i)
    case 0
    with Cons.prems(2) obtain ps ss where "a = ps @ xs @ ss" by (auto simp: sublist_def)
    then have "concat (a # xss) = ps @ xs @ (ss @ concat xss)" by simp
    then show ?thesis unfolding sublist_def by blast
  next
    case (Suc j)
    with Cons have "sublist xs (concat xss)" by simp
    then obtain ps ss where "concat xss = ps @ xs @ ss" by (auto simp: sublist_def)
    then have "concat (a # xss) = (a @ ps) @ xs @ ss" by simp
    then show ?thesis unfolding sublist_def by blast
  qed
qed

lemma sublist_lit: "sublist a b \<Longrightarrow> sublist (lit a) (lit b)"
proof -
  assume "sublist a b"
  then obtain ps ss where "b = ps @ a @ ss" by (auto simp: sublist_def)
  then have "lit b = lit ps @ lit a @ lit ss" by (simp add: lit_def)
  then show ?thesis unfolding sublist_def by blast
qed

lemma prompt_english_line:
  \<open>sublist p ''- English: "yes", "yeah", "yep", "sure", "ok", "okay", "do it", "go ahead", "confirm", "delete it"\<newline>''
   \<Longrightarrow> sublist (lit p) (get_system_prompt strftime now)\<close>
  unfolding get_system_prompt_def Let_def
  by (rule sublist_concat_nth [where i = 37], simp, simp add: sublist_lit)

lemma prompt_urdu_line:
  \<open>sublist p ''- Urdu: "haan", "han", "ji", "g", "ji haan", "kar do", "karo", "delete karo", "hata do", "theek hai"\<newline>''
   \<Longrightarrow> sublist (lit p) (get_system_prompt strftime now)\<close>
  unfolding get_system_prompt_def Let_def
  by (rule sublist_concat_nth [where i = 38], simp, simp add: sublist_lit)

lemma prompt_negative_line:
  \<open>sublist p ''5. If user says "no", "nahi", "cancel", "mat karo" - cancel the operation\<newline>''
   \<Longrightarrow> sublist (lit p) (get_system_prompt strftime now)\<close>
  unfolding get_system_prompt_def Let_def
  by (rule sublist_concat_nth [where i = 28], simp, simp add: sublist_lit)

lemma detect_provider_explicit:
  "env (lit ''AI_PROVIDER'') = Some v \<Longrightarrow> lower v \<noteq> [] \<Longrightarrow> detect_provider lower env = lower v"
  by (simp add: detect_provider_def)

lemma detect_provider_auto:
  assumes "lower [] = []" and "\<not> truthy (env (lit ''AI_PROVIDER''))"
  shows "detect_provider lower env =
           (if truthy (env (lit ''GEMINI_API_KEY'')) then lit ''gemini''
            else if truthy (env (lit ''OPENAI_API_KEY'')) then lit ''openai''
            else lit ''gemini'')"
  using assms by (auto simp add: detect_provider_def truthy_def split: option.splits)

lemma get_api_client_no_key:
  assumes "detect_provider lower env = lit ''gemini''" and "\<not> truthy (env (lit ''GEMINI_API_KEY''))"
  shows "get_api_client lower env =
           Inl (AgentConfigError (lit ''GEMINI_API_KEY environment variable is not set.''))"
  using assms by (auto simp add: get_api_client_def truthy_def split: option.splits)

lemma ascii_lower_empty: "(ascii_lower s = []) = (s = [])"
  by (simp add: ascii_lower_def)





subsection \<open>C1: the bound on a todo's text\<close>

text \<open>
  C1, as stated, bounds the text of every todo that exists by 100 characters. The
  constructor accepts a text of 101 characters, so 100 is not the bound the code
  enforces; and the bound is checked in the constructor only, so an assignment gives a
  todo that was built with a text an empty one.
\<close>

theorem todo_text_bound_counterexample:
  "Todo_init (lit ''550e8400-e29b-41d4-a716-446655440000'') (replicate 101 65) (lit ''pending'') 0 None 0
     = Inr \<lparr>id' = lit ''550e8400-e29b-41d4-a716-446655440000'', text = replicate 101 65,
            status = lit ''pending'', created_at = 0, completed_at = None, updated_at = 0\<rparr>
   \<and> \<not> length (replicate 101 (65::nat)) \<le> 100
   \<and> Todo_init (lit ''550e8400-e29b-41d4-a716-446655440000'') (lit ''Buy milk'') (lit ''pending'') 0 None 0
     = Inr \<lparr>id' = lit ''550e8400-e29b-41d4-a716-446655440000'', text = lit ''Buy milk'',
            status = lit ''pending'', created_at = 0, completed_at = None, updated_at = 0\<rparr>
   \<and> Todo.text (setattr_text
        \<lparr>id' = lit ''550e8400-e29b-41d4-a716-446655440000'', text = lit ''Buy milk'',
         status = lit ''pending'', created_at = 0, completed_at = None, updated_at = 0\<rparr> [])
     = []"
  by (simp add: Todo_init_ok setattr_text_def lit_def)

text \<open>
  C1, amended: the bound is 200 and it holds of a todo as it is constructed. Every todo
  the constructor or \<open>Todo.create\<close> returns carries the text it was given, and that text
  has between 1 and 200 characters; an empty text and a text of more than 200 characters
  are refused with \<open>ValueError\<close>; a text within the bound is accepted. An assignment to
  the field \<open>text\<close> of a todo is not checked: whatever the text assigned, the todo then
  carries it, with its other fields as they were.
\<close>

theorem todo_text_bound:
  "(\<forall>td. Todo_init i t s c d upd = Inr td \<longrightarrow>
        Todo.text td = t \<and> 1 \<le> length (Todo.text td) \<and> length (Todo.text td) \<le> 200)
   \<and> (\<forall>td. create now uuid4 t = Inr td \<longrightarrow>
        Todo.text td = t \<and> 1 \<le> length (Todo.text td) \<and> length (Todo.text td) \<le> 200)
   \<and> (length t = 0 \<longrightarrow>
        Todo_init i t s c d upd = Inl (ValueError (lit ''Todo text required''))
        \<and> create now uuid4 t = Inl (ValueError (lit ''Todo text required'')))
   \<and> (200 < length t \<longrightarrow>
        Todo_init i t s c d upd
          = Inl (ValueError (lit ''Todo text too long (max 200 characters)''))
        \<and> create now uuid4 t
          = Inl (ValueError (lit ''Todo text too long (max 200 characters)'')))
   \<and> (1 \<le> length t \<and> length t \<le> 200 \<longrightarrow>
        (\<exists>td. Todo_init i t s c d upd = Inr td) \<and> (\<exists>td. create now uuid4 t = Inr td))
   \<and> setattr_text self v = self\<lparr>text := v\<rparr>
   \<and> Todo.text (setattr_text self v) = v"
proof -
  have a: "\<forall>td. Todo_init i t s c d upd = Inr td \<longrightarrow>
        Todo.text td = t \<and> 1 \<le> length (Todo.text td) \<and> length (Todo.text td) \<le> 200"
    using Todo_init_Inr by fastforce
  have b: "\<forall>td. create now uuid4 t = Inr td \<longrightarrow>
        Todo.text td = t \<and> 1 \<le> length (Todo.text td) \<and> length (Todo.text td) \<le> 200"
    unfolding create_def using Todo_init_Inr by fastforce
  have c: "length t = 0 \<longrightarrow>
        Todo_init i t s c d upd = Inl (ValueError (lit ''Todo text required''))
        \<and> create now uuid4 t = Inl (ValueError (lit ''Todo text required''))"
    by (simp add: create_def Todo_init_empty)
  have d: "200 < length t \<longrightarrow>
        Todo_init i t s c d upd
          = Inl (ValueError (lit ''Todo text too long (max 200 characters)''))
        \<and> create now uuid4 t
          = Inl (ValueError (lit ''Todo text too long (max 200 characters)''))"
    by (simp add: create_def Todo_init_long)
  have e: "1 \<le> length t \<and> length t \<le> 200 \<longrightarrow>
        (\<exists>td. Todo_init i t s c d upd = Inr td) \<and> (\<exists>td. create now uuid4 t = Inr td)"
    by (cases t) (auto simp add: create_def Todo_init_ok)
  have f: "setattr_text self v = self\<lparr>text := v\<rparr> \<and> Todo.text (setattr_text self v) = v"
    by (simp add: setattr_text_def)
  from a b c d e f show ?thesis by blast
qed

text \<open>
  C1 at a text within the bound, at the empty text and at a text of 201 characters, and
  at the assignment of a text of 201 characters.
\<close>

theorem todo_text_bound_witness:
  "Todo_init (lit ''a1'') (lit ''Buy milk'') (lit ''pending'') 5 None 5
     = Inr \<lparr>id' = lit ''a1'', text = lit ''Buy milk'', status = lit ''pending'',
            created_at = 5, completed_at = None, updated_at = 5\<rparr>
   \<and> Todo.text \<lparr>id' = lit ''a1'', text = lit ''Buy milk'', status = lit ''pending'',
            created_at = 5, completed_at = None, updated_at = 5\<rparr> = lit ''Buy milk''
   \<and> 1 \<le> length (lit ''Buy milk'') \<and> length (lit ''Buy milk'') \<le> 200
   \<and> length ([]::str) = 0
   \<and> Todo_init (lit ''a1'') [] (lit ''pending'') 5 None 5
        = Inl (ValueError (lit ''Todo text required''))
   \<and> create 5 (lit ''a1'') [] = Inl (ValueError (lit ''Todo text required''))
   \<and> 200 < length (replicate 201 (65::nat))
   \<and> Todo_init (lit ''a1'') (replicate 201 65) (lit ''pending'') 5 None 5
        = Inl (ValueError (lit ''Todo text too long (max 200 characters)''))
   \<and> create 5 (lit ''a1'') (replicate 201 65)
        = Inl (ValueError (lit ''Todo text too long (max 200 characters)''))
   \<and> Todo.text (setattr_text
        \<lparr>id' = lit ''a1'', text = lit ''Buy milk'', status = lit ''pending'',
         created_at = 5, completed_at = None, updated_at = 5\<rparr> (replicate 201 65))
       = replicate 201 65"
  using todo_text_bound [of "lit ''a1''" "lit ''Buy milk''" "lit ''pending''" 5 None 5 5 "lit ''a1''"
      "\<lparr>id' = lit ''a1'', text = lit ''Buy milk'', status = lit ''pending'',
         created_at = 5, completed_at = None, updated_at = 5\<rparr>" "replicate 201 65"]
    todo_text_bound [of "lit ''a1''" "[]" "lit ''pending''" 5 None 5 5 "lit ''a1''"]
    todo_text_bound [of "lit ''a1''" "replicate 201 65" "lit ''pending''" 5 None 5 5 "lit ''a1''"]
  by (simp add: Todo_init_ok lit_def)

subsection \<open>C2: an empty title\<close>

text \<open>
  C2, as stated, promises zero store calls for an add request with an empty title. The
  wrapper \<open>tool_add_task\<close> checks nothing: with an empty title it calls the handler
  \<open>add_task\<close> once, here a handler that counts its calls.
\<close>

theorem empty_title_counterexample:
  "store_calls (fst (on_invoke_tool error_text
       (counting_handler [TextContent (lit ''Title is required'')])
       (tool_add_task \<lparr>session = (1::nat), user_id = (7::nat)\<rparr> [] []) 0))
     = [add_task 1 7 [] []]
   \<and> snd (snd (on_invoke_tool error_text
       (counting_handler [TextContent (lit ''Title is required'')])
       (tool_add_task \<lparr>session = (1::nat), user_id = (7::nat)\<rparr> [] []) 0)) = 1"
  by (simp add: tool_add_task_def counting_handler_def)

text \<open>
  C2, amended: constructing a todo with an empty text, directly or through \<open>Todo.create\<close>,
  raises \<open>ValueError\<close> with the message "Todo text required" and yields no todo. The
  wrapper \<open>tool_add_task\<close> does not validate: given an empty title it makes exactly one
  call of \<open>add_task\<close>, with that empty title, and the state afterwards is the one this call
  leaves.
\<close>

theorem empty_title:
  "Todo_init i [] s c d upd = Inl (ValueError (lit ''Todo text required''))
   \<and> create now uuid4 [] = Inl (ValueError (lit ''Todo text required''))
   \<and> store_calls (fst (on_invoke_tool fef h (tool_add_task ctx [] description) w))
       = [add_task (session ctx) (user_id ctx) [] description]
   \<and> snd (snd (on_invoke_tool fef h (tool_add_task ctx [] description) w))
       = snd (h (add_task (session ctx) (user_id ctx) [] description) w)"
  using passes_add [of fef h w ctx "[]" description]
  by (simp add: Todo_init_empty create_def passes_through_def)

subsection \<open>C3: \<open>Todo.create\<close> and the round trip\<close>



subsection \<open>C5: the confirmation vocabulary of the system prompt\<close>

text \<open>
  C5: whatever the clock reads and however it is formatted, the system prompt contains
  the quoted affirmative phrases "yes", "yeah", "ok", "do it", "haan", "ji", "karo", the
  quoted negative phrases "no", "cancel", "nahi", "mat karo", and the two language labels
  "English:" and "Urdu:".
\<close>

theorem confirmation_vocabulary:
  \<open>sublist (lit ''"yes"'') (get_system_prompt strftime now)
   \<and> sublist (lit ''"yeah"'') (get_system_prompt strftime now)
   \<and> sublist (lit ''"ok"'') (get_system_prompt strftime now)
   \<and> sublist (lit ''"do it"'') (get_system_prompt strftime now)
   \<and> sublist (lit ''"haan"'') (get_system_prompt strftime now)
   \<and> sublist (lit ''"ji"'') (get_system_prompt strftime now)
   \<and> sublist (lit ''"karo"'') (get_system_prompt strftime now)
   \<and> sublist (lit ''"no"'') (get_system_prompt strftime now)
   \<and> sublist (lit ''"cancel"'') (get_system_prompt strftime now)
   \<and> sublist (lit ''"nahi"'') (get_system_prompt strftime now)
   \<and> sublist (lit ''"mat karo"'') (get_system_prompt strftime now)
   \<and> sublist (lit ''English:'') (get_system_prompt strftime now)
   \<and> sublist (lit ''Urdu:'') (get_system_prompt strftime now)\<close>
proof -
  have p0: \<open>sublist (lit ''"yes"'') (get_system_prompt strftime now)\<close>
    by (rule prompt_english_line) (simp add: sublist_Cons_right prefix_code)
  have p1: \<open>sublist (lit ''"yeah"'') (get_system_prompt strftime now)\<close>
    by (rule prompt_english_line) (simp add: sublist_Cons_right prefix_code)
  have p2: \<open>sublist (lit ''"ok"'') (get_system_prompt strftime now)\<close>
    by (rule prompt_english_line) (simp add: sublist_Cons_right prefix_code)
  have p3: \<open>sublist (lit ''"do it"'') (get_system_prompt strftime now)\<close>
    by (rule prompt_english_line) (simp add: sublist_Cons_right prefix_code)
  have p4: \<open>sublist (lit ''"haan"'') (get_system_prompt strftime now)\<close>
    by (rule prompt_urdu_line) (simp add: sublist_Cons_right prefix_code)
  have p5: \<open>sublist (lit ''"ji"'') (get_system_prompt strftime now)\<close>
    by (rule prompt_urdu_line) (simp add: sublist_Cons_right prefix_code)
  have p6: \<open>sublist (lit ''"karo"'') (get_system_prompt strftime now)\<close>
    by (rule prompt_urdu_line) (simp add: sublist_Cons_right prefix_code)
  have p7: \<open>sublist (lit ''"no"'') (get_system_prompt strftime now)\<close>
    by (rule prompt_negative_line) (simp add: sublist_Cons_right prefix_code)
  have p8: \<open>sublist (lit ''"cancel"'') (get_system_prompt strftime now)\<close>
    by (rule prompt_negative_line) (simp add: sublist_Cons_right prefix_code)
  have p9: \<open>sublist (lit ''"nahi"'') (get_system_prompt strftime now)\<close>
    by (rule prompt_negative_line) (simp add: sublist_Cons_right prefix_code)
  have p10: \<open>sublist (lit ''"mat karo"'') (get_system_prompt strftime now)\<close>
    by (rule prompt_negative_line) (simp add: sublist_Cons_right prefix_code)
  have p11: \<open>sublist (lit ''English:'') (get_system_prompt strftime now)\<close>
    by (rule prompt_english_line) (simp add: sublist_Cons_right prefix_code)
  have p12: \<open>sublist (lit ''Urdu:'') (get_system_prompt strftime now)\<close>
    by (rule prompt_urdu_line) (simp add: sublist_Cons_right prefix_code)
  show ?thesis
    by (intro conjI p0 p1 p2 p3 p4 p5 p6 p7 p8 p9 p10 p11 p12)
qed

subsection \<open>C6: \<open>complete\<close> toggles\<close>

text \<open>
  C6, on the store as the specification describes it: for a task of the store that the
  caller owns, \<open>complete\<close> returns the task with its completion flag negated and stores
  it; a pending task comes back completed, a completed one pending, and a second call
  restores the task.
\<close>

theorem complete_toggles:
  assumes "store taskId = Some t" and "owner t = own"
  shows "complete own taskId store =
           (Inr (t\<lparr>completed := \<not> completed t\<rparr>),
            store(taskId \<mapsto> t\<lparr>completed := \<not> completed t\<rparr>))
         \<and> (\<not> completed t \<longrightarrow>
              (\<exists>t'. fst (complete own taskId store) = Inr t' \<and> completed t'))
         \<and> (completed t \<longrightarrow>
              (\<exists>t'. fst (complete own taskId store) = Inr t' \<and> \<not> completed t'))
         \<and> complete own taskId (snd (complete own taskId store)) = (Inr t, store(taskId \<mapsto> t))"
  using assms by (simp add: complete_def Let_def)

text \<open>C6 at a store holding one pending task of user 7.\<close>

theorem complete_toggles_witness:
  "complete (7::nat) (lit ''a1'')
     [lit ''a1'' \<mapsto> \<lparr>ident = lit ''a1'', owner = 7, task_title = lit ''Buy milk'',
        task_description = [], completed = False, created = 1, updated = 1,
        completed_time = None\<rparr>]
   = (Inr \<lparr>ident = lit ''a1'', owner = 7, task_title = lit ''Buy milk'',
        task_description = [], completed = True, created = 1, updated = 1,
        completed_time = None\<rparr>,
      [lit ''a1'' \<mapsto> \<lparr>ident = lit ''a1'', owner = 7, task_title = lit ''Buy milk'',
        task_description = [], completed = True, created = 1, updated = 1,
        completed_time = None\<rparr>])"
  using complete_toggles [of "[lit ''a1'' \<mapsto> \<lparr>ident = lit ''a1'', owner = (7::nat), task_title = lit ''Buy milk'',
        task_description = [], completed = False, created = 1, updated = 1,
        completed_time = None\<rparr>]" "lit ''a1''" "\<lparr>ident = lit ''a1'', owner = (7::nat), task_title = lit ''Buy milk'',
        task_description = [], completed = False, created = 1, updated = 1,
        completed_time = None\<rparr>" 7]
  by simp

subsection \<open>C7: the five wrappers\<close>

text \<open>
  C7, as stated, has every wrapper return the handler's text result. When the handler
  returns no item, the wrapper returns a message of its own, which the handler never
  produced.
\<close>

theorem wrappers_forward_counterexample:
  "on_invoke_tool error_text (counting_handler [])
       (tool_add_task \<lparr>session = (1::nat), user_id = (7::nat)\<rparr> (lit ''Buy milk'') []) 0
     = ([Called (add_task 1 7 (lit ''Buy milk'') [])], lit ''Failed to add task'', 1)
   \<and> counting_handler [] (add_task (1::nat) (7::nat) (lit ''Buy milk'') []) 0 = (Inr [], 1)"
  by (simp add: tool_add_task_def counting_handler_def)

text \<open>
  C7, amended: each of the five wrappers passes its call through. For every handler,
  state, context and arguments it makes exactly one handler call, the corresponding one,
  with the session and the user id of the context and with its own arguments unchanged;
  it returns the text of the first item of the handler's result, or its fixed message
  "Failed to ..." when the result has no item.
\<close>

theorem wrappers_forward:
  "passes_through fef h w (tool_add_task ctx title description)
     (add_task (session ctx) (user_id ctx) title description) (lit ''Failed to add task'')
   \<and> passes_through fef h w (tool_list_tasks ctx filter')
     (list_tasks (session ctx) (user_id ctx) filter') (lit ''Failed to list tasks'')
   \<and> passes_through fef h w (tool_complete_task ctx task_id)
     (complete_task (session ctx) (user_id ctx) task_id) (lit ''Failed to complete task'')
   \<and> passes_through fef h w (tool_update_task ctx task_id title description')
     (update_task (session ctx) (user_id ctx) task_id title description')
     (lit ''Failed to update task'')
   \<and> passes_through fef h w (tool_delete_task ctx task_id)
     (delete_task (session ctx) (user_id ctx) task_id) (lit ''Failed to delete task'')"
  by (intro conjI passes_add passes_list passes_complete passes_update passes_delete)

text \<open>C7 at a deletion by user 7, with the two debug lines the wrapper prints.\<close>

theorem wrappers_forward_witness:
  "passes_through error_text (counting_handler [TextContent (lit ''Task deleted'')]) 0
     (tool_delete_task \<lparr>session = (1::nat), user_id = (7::nat)\<rparr> (lit ''abc-123''))
     (delete_task 1 7 (lit ''abc-123'')) (lit ''Failed to delete task'')
   \<and> on_invoke_tool error_text (counting_handler [TextContent (lit ''Task deleted'')])
       (tool_delete_task \<lparr>session = (1::nat), user_id = (7::nat)\<rparr> (lit ''abc-123'')) 0
     = ([Printed (lit ''[DEBUG] tool_delete_task called with task_id: abc-123''),
         Called (delete_task 1 7 (lit ''abc-123'')),
         Printed (lit ''[DEBUG] tool_delete_task response: Task deleted'')],
        lit ''Task deleted'', 1)"
  using wrappers_forward [of error_text "counting_handler [TextContent (lit ''Task deleted'')]" 0
      "\<lparr>session = (1::nat), user_id = (7::nat)\<rparr>" "[]" "[]" "[]" "lit ''abc-123''" None]
  by (simp add: tool_delete_task_def counting_handler_def lit_def Let_def)

subsection \<open>C8: \<open>_parse_tool_response\<close>\<close>

text \<open>
  C8 says that the function returns a dict on every input. The function is annotated
  \<open>-> dict\<close> and builds a dict for a text that does not decode, but it hands back
  whatever \<open>json.loads\<close> decodes: on the document \<open>null\<close>, which is valid JSON, it returns
  \<open>None\<close>, which is not a dict.
\<close>

theorem parse_tool_response_not_dict:
  "parse_tool_response loads_literal (lit ''null'') = Inr PyNone \<and> \<not> is_dict PyNone"
  by (simp add: parse_tool_response_def loads_literal_def)

subsection \<open>C9: provider selection\<close>

text \<open>
  C9: the provider is a function of the environment. A variable counts as set when it
  has a non-empty value, which is how the source tests it. If \<open>AI_PROVIDER\<close> is set, its
  lowercased value is the provider. Otherwise the provider is "gemini" when
  \<open>GEMINI_API_KEY\<close> is set, "openai" when only \<open>OPENAI_API_KEY\<close> is set, and "gemini" when
  neither is; in that last case \<open>get_api_client\<close> raises \<open>AgentConfigError\<close>. Of
  \<open>str.lower\<close> only this is used: it maps the empty string, and no other, to the empty
  string.
\<close>

theorem provider_selection:
  assumes lower_empty: "\<And>s. (lower s = []) = (s = [])"
  shows "(\<forall>v. env (lit ''AI_PROVIDER'') = Some v \<and> v \<noteq> [] \<longrightarrow>
            detect_provider lower env = lower v)
         \<and> (\<not> truthy (env (lit ''AI_PROVIDER'')) \<and> truthy (env (lit ''GEMINI_API_KEY'')) \<longrightarrow>
            detect_provider lower env = lit ''gemini'')
         \<and> (\<not> truthy (env (lit ''AI_PROVIDER'')) \<and> \<not> truthy (env (lit ''GEMINI_API_KEY''))
              \<and> truthy (env (lit ''OPENAI_API_KEY'')) \<longrightarrow>
            detect_provider lower env = lit ''openai'')
         \<and> (\<not> truthy (env (lit ''AI_PROVIDER'')) \<and> \<not> truthy (env (lit ''GEMINI_API_KEY''))
              \<and> \<not> truthy (env (lit ''OPENAI_API_KEY'')) \<longrightarrow>
            detect_provider lower env = lit ''gemini''
            \<and> get_api_client lower env =
                Inl (AgentConfigError (lit ''GEMINI_API_KEY environment variable is not set.'')))"
proof -
  have l0: "lower [] = []" using lower_empty by simp
  have a: "\<forall>v. env (lit ''AI_PROVIDER'') = Some v \<and> v \<noteq> [] \<longrightarrow>
            detect_provider lower env = lower v"
    using lower_empty by (simp add: detect_provider_explicit)
  have b: "\<not> truthy (env (lit ''AI_PROVIDER'')) \<and> truthy (env (lit ''GEMINI_API_KEY'')) \<longrightarrow>
            detect_provider lower env = lit ''gemini''"
    using detect_provider_auto [of lower env, OF l0] by simp
  have c: "\<not> truthy (env (lit ''AI_PROVIDER'')) \<and> \<not> truthy (env (lit ''GEMINI_API_KEY''))
              \<and> truthy (env (lit ''OPENAI_API_KEY'')) \<longrightarrow>
            detect_provider lower env = lit ''openai''"
    using detect_provider_auto [of lower env, OF l0] by simp
  have d: "\<not> truthy (env (lit ''AI_PROVIDER'')) \<and> \<not> truthy (env (lit ''GEMINI_API_KEY''))
              \<and> \<not> truthy (env (lit ''OPENAI_API_KEY'')) \<longrightarrow>
            detect_provider lower env = lit ''gemini''
            \<and> get_api_client lower env =
                Inl (AgentConfigError (lit ''GEMINI_API_KEY environment variable is not set.''))"
    using detect_provider_auto [of lower env, OF l0] get_api_client_no_key by simp
  from a b c d show ?thesis by blast
qed

text \<open>C9 at four environments, one for each case.\<close>

theorem provider_selection_witness:
  "detect_provider ascii_lower [lit ''AI_PROVIDER'' \<mapsto> lit ''OpenAI''] = lit ''openai''
   \<and> detect_provider ascii_lower
        [lit ''GEMINI_API_KEY'' \<mapsto> lit ''g-key'', lit ''OPENAI_API_KEY'' \<mapsto> lit ''o-key'']
       = lit ''gemini''
   \<and> detect_provider ascii_lower [lit ''OPENAI_API_KEY'' \<mapsto> lit ''o-key''] = lit ''openai''
   \<and> detect_provider ascii_lower Map.empty = lit ''gemini''
   \<and> get_api_client ascii_lower Map.empty =
       Inl (AgentConfigError (lit ''GEMINI_API_KEY environment variable is not set.''))"
  using provider_selection [of ascii_lower "[lit ''AI_PROVIDER'' \<mapsto> lit ''OpenAI'']", OF ascii_lower_empty]
    provider_selection [of ascii_lower
        "[lit ''GEMINI_API_KEY'' \<mapsto> lit ''g-key'', lit ''OPENAI_API_KEY'' \<mapsto> lit ''o-key'']",
        OF ascii_lower_empty]
    provider_selection [of ascii_lower "[lit ''OPENAI_API_KEY'' \<mapsto> lit ''o-key'']",
        OF ascii_lower_empty]
    provider_selection [of ascii_lower Map.empty, OF ascii_lower_empty]
  by (simp add: truthy_def lit_def ascii_lower_def)

subsection \<open>C10: construction checks the text only\<close>

text \<open>
  C10: a todo whose text has 1 to 200 characters is accepted with any status and any
  completion time; in particular the status "completed" with no completion time is
  accepted, and so is "pending" with a completion time. The check gives the same answer
  whatever the other five fields hold.
\<close>

theorem init_checks_text_only:
  assumes "1 \<le> length t" and "length t \<le> 200"
  shows "Todo_init i t s c d upd =
           Inr \<lparr>id' = i, text = t, status = s, created_at = c, completed_at = d,
                updated_at = upd\<rparr>
         \<and> Todo_init i t (lit ''completed'') c None upd =
           Inr \<lparr>id' = i, text = t, status = lit ''completed'', created_at = c,
                completed_at = None, updated_at = upd\<rparr>
         \<and> Todo_init i t (lit ''pending'') c (Some done) upd =
           Inr \<lparr>id' = i, text = t, status = lit ''pending'', created_at = c,
                completed_at = Some done, updated_at = upd\<rparr>
         \<and> post_init \<lparr>id' = i, text = t, status = s, created_at = c, completed_at = d,
                updated_at = upd\<rparr>
           = post_init \<lparr>id' = i', text = t, status = s', created_at = c', completed_at = d',
                updated_at = upd'\<rparr>"
proof -
  from assms have "t \<noteq> []" by auto
  with assms(2) show ?thesis by (simp add: Todo_init_ok post_init_cases)
qed

text \<open>C10 at a completed todo without a completion time.\<close>

theorem init_checks_text_only_witness:
  "1 \<le> length (lit ''Test todo'') \<and> length (lit ''Test todo'') \<le> 200
   \<and> Todo_init (lit ''a1'') (lit ''Test todo'') (lit ''completed'') 3 None 4
     = Inr \<lparr>id' = lit ''a1'', text = lit ''Test todo'', status = lit ''completed'',
            created_at = 3, completed_at = None, updated_at = 4\<rparr>"
proof -
  have a: "1 \<le> length (lit ''Test todo'')" by (simp add: lit_def)
  have b: "length (lit ''Test todo'') \<le> 200" by (simp add: lit_def)
  from init_checks_text_only [OF a b, of "lit ''a1''" "lit ''completed''" 3 None 4] a b
  show ?thesis by blast
qed

end
